theory Spec2Isabelle
  imports Complex_Main
begin

section \<open>Decimal arithmetic in the default context\<close>

text \<open>
  The ledger computes with Python's \<open>decimal.Decimal\<close> under the default context:
  precision 28, rounding \<open>ROUND_HALF_EVEN\<close>, \<open>Emax = 999999\<close>, \<open>Emin = -999999\<close>,
  and the traps \<open>InvalidOperation\<close>, \<open>DivisionByZero\<close> and \<open>Overflow\<close> enabled.
  A finite number is a sign, a coefficient and an exponent, as in the module; the sign
  and the payload of a NaN, which only show when it is printed, are not represented.
  The constructor of a \<open>Decimal\<close> does no rounding, so the arguments of a call may
  have any number of digits and any exponent; every arithmetic result is rounded by
  \<open>fix_ctx\<close>, the module's \<open>_fix\<close>, or raises.
\<close>

datatype decimal = Finite bool nat int | Infinity bool | NaN | sNaN

text \<open>
  The exceptions that the arithmetic and the conversion to \<open>float\<close> can raise.
\<close>

datatype error = DivisionByZero | InvalidOperation | Overflow | ValueError

definition prec :: int where "prec = 28"
definition Emax :: int where "Emax = 999999"
definition Emin :: int where "Emin = - 999999"
definition Etiny :: int where "Etiny = Emin - prec + 1"
definition Etop :: int where "Etop = Emax - prec + 1"

text \<open>The number of decimal digits of a coefficient, \<open>len(str(n))\<close>.\<close>

fun ndigits :: "nat \<Rightarrow> nat" where
  "ndigits n = (if n < 10 then 1 else Suc (ndigits (n div 10)))"

declare ndigits.simps [simp del]

text \<open>
  \<open>_fix\<close>: a zero keeps its sign and has its exponent clamped; a number whose
  adjusted exponent exceeds \<open>Emax\<close> raises \<open>Overflow\<close>; a coefficient of more than
  28 digits (or one below the subnormal limit \<open>Etiny\<close>) loses its last \<open>dropped\<close>
  digits, rounding half to even, and a carry into a 29th digit moves the exponent up.
\<close>

fun fix_ctx :: "decimal \<Rightarrow> error + decimal" where
  "fix_ctx (Finite sign coeff expo) =
     (if coeff = 0 then Inr (Finite sign 0 (min (max expo Etiny) Emax))
      else
        let exp_min = int (ndigits coeff) + expo - prec in
        if exp_min > Etop then Inl Overflow
        else
          let self_is_subnormal = exp_min < Etiny;
              exp_min = (if self_is_subnormal then Etiny else exp_min)
          in if expo < exp_min then
               let dropped = nat (exp_min - expo);
                   kept = coeff div 10 ^ dropped;
                   rest = coeff mod 10 ^ dropped;
                   changed = (2 * rest > 10 ^ dropped \<or> (2 * rest = 10 ^ dropped \<and> odd kept))
               in if changed \<and> int (ndigits (kept + 1)) > prec
                  then (if exp_min + 1 > Etop then Inl Overflow
                        else Inr (Finite sign ((kept + 1) div 10) (exp_min + 1)))
                  else Inr (Finite sign (if changed then kept + 1 else kept) exp_min)
             else Inr (Finite sign coeff expo))"
| "fix_ctx d = Inr d"

text \<open>An \<open>int\<close> operand is converted exactly.\<close>

definition dec_of_int :: "int \<Rightarrow> decimal" where
  "dec_of_int i = Finite (i < 0) (nat \<bar>i\<bar>) 0"

fun copy_negate :: "decimal \<Rightarrow> decimal" where
  "copy_negate (Finite sign coeff expo) = Finite (\<not> sign) coeff expo"
| "copy_negate (Infinity sign) = Infinity (\<not> sign)"
| "copy_negate d = d"

text \<open>
  \<open>_check_nans\<close>: a signaling NaN among the operands raises, a quiet NaN is the
  result.
\<close>

definition check_nans :: "decimal \<Rightarrow> decimal \<Rightarrow> (error + decimal) option" where
  "check_nans a b =
     (if a = sNaN \<or> b = sNaN then Some (Inl InvalidOperation)
      else if a = NaN \<or> b = NaN then Some (Inr NaN)
      else None)"

text \<open>
  The signed coefficient of a finite number, written at the exponent \<open>e\<close> (not above
  its own).
\<close>

definition aligned :: "bool \<Rightarrow> nat \<Rightarrow> int \<Rightarrow> int \<Rightarrow> int" where
  "aligned sign coeff expo e = (if sign then - 1 else 1) * int coeff * 10 ^ nat (expo - e)"

text \<open>
  \<open>__add__\<close> after the NaN check. The module aligns the two coefficients at the
  smaller exponent, adds them and rounds; where it shortens a far smaller operand first,
  the rounded sum is the same. Two zeros give a negative zero only when both are
  negative; an exact cancellation gives a positive zero. \<open>__sub__\<close> adds the negated
  operand.
\<close>

fun add_numbers :: "decimal \<Rightarrow> decimal \<Rightarrow> error + decimal" where
  "add_numbers (Infinity s1) (Infinity s2) =
     (if s1 \<noteq> s2 then Inl InvalidOperation else Inr (Infinity s1))"
| "add_numbers (Infinity s1) b = Inr (Infinity s1)"
| "add_numbers a (Infinity s2) = Inr (Infinity s2)"
| "add_numbers (Finite s1 c1 e1) (Finite s2 c2 e2) =
     (let expo = min e1 e2;
          total = aligned s1 c1 e1 expo + aligned s2 c2 e2 expo
      in if c1 = 0 \<and> c2 = 0 then fix_ctx (Finite (s1 \<and> s2) 0 expo)
         else if total = 0 then fix_ctx (Finite False 0 expo)
         else fix_ctx (Finite (total < 0) (nat \<bar>total\<bar>) expo))"
| "add_numbers a b = Inr NaN"

definition dadd :: "decimal \<Rightarrow> decimal \<Rightarrow> error + decimal" where
  "dadd a b = (case check_nans a b of Some r \<Rightarrow> r | None \<Rightarrow> add_numbers a b)"

definition dsub :: "decimal \<Rightarrow> decimal \<Rightarrow> error + decimal" where
  "dsub a b = (case check_nans a b of Some r \<Rightarrow> r | None \<Rightarrow> dadd a (copy_negate b))"

fun mul_numbers :: "decimal \<Rightarrow> decimal \<Rightarrow> error + decimal" where
  "mul_numbers (Infinity s1) (Infinity s2) = Inr (Infinity (s1 \<noteq> s2))"
| "mul_numbers (Infinity s1) (Finite s2 c2 e2) =
     (if c2 = 0 then Inl InvalidOperation else Inr (Infinity (s1 \<noteq> s2)))"
| "mul_numbers (Finite s1 c1 e1) (Infinity s2) =
     (if c1 = 0 then Inl InvalidOperation else Inr (Infinity (s1 \<noteq> s2)))"
| "mul_numbers (Finite s1 c1 e1) (Finite s2 c2 e2) =
     fix_ctx (Finite (s1 \<noteq> s2) (c1 * c2) (e1 + e2))"
| "mul_numbers a b = Inr NaN"

definition dmul :: "decimal \<Rightarrow> decimal \<Rightarrow> error + decimal" where
  "dmul a b = (case check_nans a b of Some r \<Rightarrow> r | None \<Rightarrow> mul_numbers a b)"

text \<open>
  \<open>__truediv__\<close>: the quotient is computed to 29 digits with a sticky last digit and
  then rounded; an exact quotient first sheds trailing zeros, at most until its
  exponent reaches the difference of the operands' exponents (the first argument of
  \<open>strip_zeros\<close> counts the steps still allowed).
\<close>

fun strip_zeros :: "nat \<Rightarrow> nat \<Rightarrow> int \<Rightarrow> nat \<times> int" where
  "strip_zeros 0 coeff expo = (coeff, expo)"
| "strip_zeros (Suc n) coeff expo =
     (if coeff mod 10 = 0 then strip_zeros n (coeff div 10) (expo + 1) else (coeff, expo))"

fun div_numbers :: "decimal \<Rightarrow> decimal \<Rightarrow> error + decimal" where
  "div_numbers (Infinity s1) (Infinity s2) = Inl InvalidOperation"
| "div_numbers (Infinity s1) (Finite s2 c2 e2) = Inr (Infinity (s1 \<noteq> s2))"
| "div_numbers (Finite s1 c1 e1) (Infinity s2) = Inr (Finite (s1 \<noteq> s2) 0 Etiny)"
| "div_numbers (Finite s1 c1 e1) (Finite s2 c2 e2) =
     (if c2 = 0 then (if c1 = 0 then Inl InvalidOperation else Inl DivisionByZero)
      else if c1 = 0 then fix_ctx (Finite (s1 \<noteq> s2) 0 (e1 - e2))
      else
        let shift = int (ndigits c2) - int (ndigits c1) + prec + 1;
            expo = e1 - e2 - shift;
            num = (if shift \<ge> 0 then c1 * 10 ^ nat shift else c1);
            den = (if shift \<ge> 0 then c2 else c2 * 10 ^ nat (- shift));
            coeff = num div den;
            remainder = num mod den
        in if remainder \<noteq> 0
           then fix_ctx (Finite (s1 \<noteq> s2) (if coeff mod 5 = 0 then coeff + 1 else coeff) expo)
           else (case strip_zeros (nat (e1 - e2 - expo)) coeff expo of
                   (coeff', expo') \<Rightarrow> fix_ctx (Finite (s1 \<noteq> s2) coeff' expo')))"
| "div_numbers a b = Inr NaN"

definition ddiv :: "decimal \<Rightarrow> decimal \<Rightarrow> error + decimal" where
  "ddiv a b = (case check_nans a b of Some r \<Rightarrow> r | None \<Rightarrow> div_numbers a b)"

text \<open>
  \<open>__gt__\<close> and \<open>__ge__\<close>: a comparison with a NaN raises; other numbers are
  compared by value.
\<close>

fun cmp_gt :: "decimal \<Rightarrow> decimal \<Rightarrow> bool" where
  "cmp_gt (Infinity s1) (Infinity s2) = (\<not> s1 \<and> s2)"
| "cmp_gt (Infinity s1) b = (\<not> s1)"
| "cmp_gt a (Infinity s2) = s2"
| "cmp_gt (Finite s1 c1 e1) (Finite s2 c2 e2) =
     (aligned s1 c1 e1 (min e1 e2) > aligned s2 c2 e2 (min e1 e2))"
| "cmp_gt a b = False"

definition is_nan :: "decimal \<Rightarrow> bool" where
  "is_nan d = (d = NaN \<or> d = sNaN)"

definition dgt :: "decimal \<Rightarrow> decimal \<Rightarrow> error + bool" where
  "dgt a b = (if is_nan a \<or> is_nan b then Inl InvalidOperation else Inr (cmp_gt a b))"

definition dge :: "decimal \<Rightarrow> decimal \<Rightarrow> error + bool" where
  "dge a b = (if is_nan a \<or> is_nan b then Inl InvalidOperation else Inr (\<not> cmp_gt b a))"

text \<open>The exact value of a finite number, for statements about exact arithmetic.\<close>

fun dval :: "decimal \<Rightarrow> rat" where
  "dval (Finite sign coeff expo) =
     (if sign then - 1 else 1) * of_nat coeff
       * (if 0 \<le> expo then 10 ^ nat expo else 1 / 10 ^ nat (- expo))"

section \<open>Data model of account.py\<close>

text \<open>
  A \<open>datetime\<close> is a point on the integer time line. Share counts are Python's
  unbounded \<open>int\<close>.
\<close>

type_synonym datetime = int

text \<open>
  The fields annotated \<open>float\<close> in the dataclasses hold whatever the caller stores
  there: the result of \<open>float(d)\<close> for a decimal \<open>d\<close>, the literal \<open>0.0\<close>, a
  \<open>Decimal\<close> passed through unconverted, or the integer literal \<open>0\<close> returned by
  \<open>sell\<close>. \<open>PyFloat d\<close> stands for the binary float that \<open>float\<close> yields for the
  decimal \<open>d\<close> (the literal \<open>0.0\<close> is \<open>PyFloat\<close> of zero); the binary rounding is
  not computed. \<open>float\<close> raises \<open>ValueError\<close> for a signaling NaN.
\<close>

datatype pynum = PyInt int | PyFloat decimal | PyDecimal decimal

definition to_float :: "decimal \<Rightarrow> error + pynum" where
  "to_float d = (if d = sNaN then Inl ValueError else Inr (PyFloat d))"

text \<open>Sequencing of two computations of which the first may raise.\<close>

definition and_then :: "error + 'a \<Rightarrow> ('a \<Rightarrow> error + 'b) \<Rightarrow> error + 'b" where
  "and_then m f = (case m of Inl e \<Rightarrow> Inl e | Inr x \<Rightarrow> f x)"

text \<open>
  The \<open>action\<close> string of a trade takes two values in the source, the Chinese words for
  buying and selling; \<open>BUY\<close> and \<open>SELL\<close> stand for these two literals.
\<close>

datatype action = BUY | SELL

record Trade =
  t_time :: datetime
  t_action :: action
  t_price :: pynum
  t_quantity :: int
  t_reason :: string
  t_profit :: pynum

record TradeLog =
  l_time :: datetime
  l_action :: action
  l_price :: pynum
  l_quantity :: int
  l_reason :: string
  l_profit :: pynum
  l_position :: int
  l_cost_price :: pynum
  l_market_value :: pynum
  l_available_capital :: pynum
  l_account_value :: pynum
  l_total_profit :: pynum

text \<open>One entry of \<open>holdings\<close>: a dictionary with the keys time, price and quantity.\<close>

record holding =
  h_time :: datetime
  h_price :: decimal
  h_quantity :: int

record PositionManager =
  position :: int
  total_cost :: decimal
  avg_cost_price :: decimal
  trades :: "Trade list"
  holdings :: "holding list"
  trade_logs :: "TradeLog list"
  last_price :: decimal
  initial_capital :: decimal
  available_capital :: decimal

section \<open>Operations of PositionManager\<close>

text \<open>
  A method that can raise returns either the exception together with the object as the
  exception leaves it (the assignments made so far stay), or its result and the new
  state.
\<close>

definition init :: "decimal \<Rightarrow> PositionManager" where
  "init capital =
     \<lparr>position = 0, total_cost = dec_of_int 0, avg_cost_price = dec_of_int 0, trades = [],
      holdings = [], trade_logs = [], last_price = dec_of_int 0, initial_capital = capital,
      available_capital = capital\<rparr>"

definition get_average_cost_price :: "PositionManager \<Rightarrow> decimal" where
  "get_average_cost_price s = avg_cost_price s"

definition get_market_value :: "PositionManager \<Rightarrow> error + decimal" where
  "get_market_value s = dmul (last_price s) (dec_of_int (position s))"

definition get_available_capital :: "PositionManager \<Rightarrow> decimal" where
  "get_available_capital s = available_capital s"

definition get_account_value :: "PositionManager \<Rightarrow> error + decimal" where
  "get_account_value s =
     and_then (get_market_value s) (\<lambda>market_value. dadd market_value (available_capital s))"

definition get_total_profit :: "PositionManager \<Rightarrow> error + decimal" where
  "get_total_profit s =
     and_then (get_account_value s) (\<lambda>account_value. dsub account_value (initial_capital s))"

definition update_price :: "PositionManager \<Rightarrow> decimal \<Rightarrow> PositionManager" where
  "update_price s price = s\<lparr>last_price := price\<rparr>"

text \<open>
  \<open>_log_trade\<close>: the arguments of the \<open>TradeLog\<close> are evaluated in the order in
  which they are written; the entry is appended only if none of them raises.
\<close>

definition new_trade_log ::
  "PositionManager \<Rightarrow> datetime \<Rightarrow> action \<Rightarrow> decimal \<Rightarrow> int \<Rightarrow> string \<Rightarrow> pynum
     \<Rightarrow> error + TradeLog" where
  "new_trade_log s time act price quantity reason profit =
     and_then (to_float price) (\<lambda>price_f.
     and_then (to_float (get_average_cost_price s)) (\<lambda>cost_price_f.
     and_then (dmul price (dec_of_int (position s))) (\<lambda>market_value.
     and_then (to_float market_value) (\<lambda>market_value_f.
     and_then (to_float (available_capital s)) (\<lambda>available_capital_f.
     and_then (get_account_value s) (\<lambda>account_value.
     and_then (to_float account_value) (\<lambda>account_value_f.
     and_then (get_total_profit s) (\<lambda>total_profit.
     and_then (to_float total_profit) (\<lambda>total_profit_f.
       Inr \<lparr>l_time = time, l_action = act, l_price = price_f, l_quantity = quantity,
            l_reason = reason, l_profit = profit, l_position = position s,
            l_cost_price = cost_price_f, l_market_value = market_value_f,
            l_available_capital = available_capital_f, l_account_value = account_value_f,
            l_total_profit = total_profit_f\<rparr>)))))))))"

definition log_trade ::
  "PositionManager \<Rightarrow> datetime \<Rightarrow> action \<Rightarrow> decimal \<Rightarrow> int \<Rightarrow> string \<Rightarrow> pynum
     \<Rightarrow> error \<times> PositionManager + PositionManager" where
  "log_trade s time act price quantity reason profit =
     (case new_trade_log s time act price quantity reason profit of
        Inl e \<Rightarrow> Inl (e, s)
      | Inr entry \<Rightarrow> Inr (s\<lparr>trade_logs := trade_logs s @ [entry]\<rparr>))"

text \<open>
  The loop of \<open>_update_holdings\<close>: \<open>remaining\<close> and \<open>new_holdings\<close> are the loop's
  two variables, the third argument is the part of \<open>self.holdings\<close> still to visit.
\<close>

fun update_holdings_loop :: "int \<Rightarrow> holding list \<Rightarrow> holding list \<Rightarrow> holding list" where
  "update_holdings_loop remaining new_holdings [] = new_holdings"
| "update_holdings_loop remaining new_holdings (h # hs) =
     (if remaining \<le> 0 then update_holdings_loop remaining (new_holdings @ [h]) hs
      else if h_quantity h \<le> remaining
        then update_holdings_loop (remaining - h_quantity h) new_holdings hs
      else update_holdings_loop 0
             (new_holdings @
                [\<lparr>h_time = h_time h, h_price = h_price h,
                  h_quantity = h_quantity h - remaining\<rparr>]) hs)"

definition update_holdings :: "PositionManager \<Rightarrow> int \<Rightarrow> PositionManager" where
  "update_holdings s quantity = s\<lparr>holdings := update_holdings_loop quantity [] (holdings s)\<rparr>"

text \<open>
  \<open>buy\<close>. The \<open>raise\<close> after the early \<open>return\<close> is unreachable. Each arithmetic
  operation may raise and then leaves the fields assigned before it changed.
\<close>

definition buy ::
  "PositionManager \<Rightarrow> datetime \<Rightarrow> decimal \<Rightarrow> int \<Rightarrow> string
     \<Rightarrow> error \<times> PositionManager + PositionManager" where
  "buy s time price quantity reason =
     (case dmul price (dec_of_int quantity) of
        Inl e \<Rightarrow> Inl (e, s)
      | Inr cost \<Rightarrow>
     (case dgt cost (available_capital s) of
        Inl e \<Rightarrow> Inl (e, s)
      | Inr True \<Rightarrow> Inr s
      | Inr False \<Rightarrow>
     (case dadd (total_cost s) cost of
        Inl e \<Rightarrow> Inl (e, s)
      | Inr new_total_cost \<Rightarrow>
        let s1 = s\<lparr>total_cost := new_total_cost\<rparr>;
            s2 = s1\<lparr>position := position s1 + quantity\<rparr>;
            s3 = s2\<lparr>last_price := price\<rparr>
        in
     (case dsub (available_capital s3) cost of
        Inl e \<Rightarrow> Inl (e, s3)
      | Inr new_available_capital \<Rightarrow>
        let s4 = s3\<lparr>available_capital := new_available_capital\<rparr> in
     (case ddiv (total_cost s4) (dec_of_int (position s4)) of
        Inl e \<Rightarrow> Inl (e, s4)
      | Inr new_avg_cost_price \<Rightarrow>
        let s5 = s4\<lparr>avg_cost_price := new_avg_cost_price\<rparr>;
            s6 = s5\<lparr>holdings := holdings s5 @
                    [\<lparr>h_time = time, h_price = price, h_quantity = quantity\<rparr>]\<rparr>
        in
     (case to_float price of
        Inl e \<Rightarrow> Inl (e, s6)
      | Inr price_f \<Rightarrow>
        let trade = \<lparr>t_time = time, t_action = BUY, t_price = price_f,
                      t_quantity = quantity, t_reason = reason,
                      t_profit = PyFloat (dec_of_int 0)\<rparr>;
            s7 = s6\<lparr>trades := trades s6 @ [trade]\<rparr>
        in log_trade s7 time BUY price quantity reason (PyFloat (dec_of_int 0))))))))"

text \<open>
  \<open>sell\<close> returns its value together with the new state. The \<open>Trade\<close> is built
  without a \<open>profit\<close> argument, so the field takes its default \<open>0.0\<close>; both
  \<open>return\<close> statements return the integer literal \<open>0\<close>.
\<close>

definition sell ::
  "PositionManager \<Rightarrow> datetime \<Rightarrow> decimal \<Rightarrow> int \<Rightarrow> string
     \<Rightarrow> error \<times> PositionManager + pynum \<times> PositionManager" where
  "sell s time price quantity reason =
     (if position s < quantity then Inr (PyInt 0, s)
      else
     (case and_then (dmul price (dec_of_int quantity)) (dsub (total_cost s)) of
        Inl e \<Rightarrow> Inl (e, s)
      | Inr new_total_cost \<Rightarrow>
        let s1 = s\<lparr>total_cost := new_total_cost\<rparr>;
            s2 = s1\<lparr>position := position s1 - quantity\<rparr>;
            s3 = s2\<lparr>last_price := price\<rparr>
        in
     (case and_then (dmul price (dec_of_int quantity)) (dadd (available_capital s3)) of
        Inl e \<Rightarrow> Inl (e, s3)
      | Inr new_available_capital \<Rightarrow>
        let s4 = s3\<lparr>available_capital := new_available_capital\<rparr> in
     (case and_then (dsub price (avg_cost_price s4))
             (\<lambda>difference. dmul difference (dec_of_int quantity)) of
        Inl e \<Rightarrow> Inl (e, s4)
      | Inr profit \<Rightarrow>
     (case (if position s4 \<noteq> 0 then ddiv (total_cost s4) (dec_of_int (position s4))
            else Inr price) of
        Inl e \<Rightarrow> Inl (e, s4)
      | Inr new_avg_cost_price \<Rightarrow>
        let s5 = s4\<lparr>avg_cost_price := new_avg_cost_price\<rparr>;
            s6 = update_holdings s5 quantity
        in
     (case to_float price of
        Inl e \<Rightarrow> Inl (e, s6)
      | Inr price_f \<Rightarrow>
        let trade = \<lparr>t_time = time, t_action = SELL, t_price = price_f,
                      t_quantity = quantity, t_reason = reason,
                      t_profit = PyFloat (dec_of_int 0)\<rparr>;
            s7 = s6\<lparr>trades := trades s6 @ [trade]\<rparr>
        in (case log_trade s7 time SELL price quantity reason (PyDecimal profit) of
              Inl failure \<Rightarrow> Inl failure
            | Inr s8 \<Rightarrow> Inr (PyInt 0, s8))))))))"

section \<open>Sequences of calls\<close>

text \<open>
  A caller of the ledger issues \<open>buy\<close>, \<open>sell\<close> and \<open>update_price\<close> calls one after
  the other; an exception ends the sequence and leaves the object as it is then.
\<close>

datatype call =
  CallBuy datetime decimal int string
| CallSell datetime decimal int string
| CallUpdatePrice decimal

fun step :: "PositionManager \<Rightarrow> call \<Rightarrow> error \<times> PositionManager + PositionManager" where
  "step s (CallBuy time price quantity reason) = buy s time price quantity reason"
| "step s (CallSell time price quantity reason) =
     (case sell s time price quantity reason of
        Inl failure \<Rightarrow> Inl failure
      | Inr (returned, s') \<Rightarrow> Inr s')"
| "step s (CallUpdatePrice price) = Inr (update_price s price)"

fun run :: "PositionManager \<Rightarrow> call list \<Rightarrow> error \<times> PositionManager + PositionManager" where
  "run s [] = Inr s"
| "run s (c # cs) = (case step s c of Inl failure \<Rightarrow> Inl failure | Inr s' \<Rightarrow> run s' cs)"

fun state_after :: "error \<times> PositionManager + PositionManager \<Rightarrow> PositionManager" where
  "state_after (Inl (e, s)) = s"
| "state_after (Inr s) = s"

text \<open>
  The preconditions that the specification puts on the arguments of a call, as the
  Python comparisons \<open>price > 0\<close> and \<open>quantity > 0\<close>.
\<close>

fun valid_call :: "call \<Rightarrow> bool" where
  "valid_call (CallBuy time price quantity reason) =
     (dgt price (dec_of_int 0) = Inr True \<and> 0 < quantity)"
| "valid_call (CallSell time price quantity reason) =
     (dgt price (dec_of_int 0) = Inr True \<and> 0 < quantity)"
| "valid_call (CallUpdatePrice price) = (dgt price (dec_of_int 0) = Inr True)"

definition valid_calls :: "call list \<Rightarrow> bool" where
  "valid_calls cs = list_all valid_call cs"

fun sum_quantity :: "holding list \<Rightarrow> int" where
  "sum_quantity [] = 0"
| "sum_quantity (h # hs) = h_quantity h + sum_quantity hs"

text \<open>
  The relation between the lots and the share count: the position is not negative and
  the quantities of the lots in \<open>holdings\<close> add up to it.
\<close>

definition lots_match :: "PositionManager \<Rightarrow> bool" where
  "lots_match s = (0 \<le> position s \<and> sum_quantity (holdings s) = position s)"

section \<open>Rejected orders\<close>

text \<open>
  C5. A \<open>sell\<close> of more shares than \<open>position\<close> returns zero together with the state
  it was given: nothing changes, nothing is logged, and no exception is raised.
\<close>

theorem sell_rejected_unchanged:
  assumes "quantity > position s"
  shows "sell s time price quantity reason = Inr (PyInt 0, s)"
  using assms by (simp add: sell_def)

theorem sell_rejected_unchanged_witness:
  "(5::int) > position (init (dec_of_int 10000))
   \<and> sell (init (dec_of_int 10000)) 1 (dec_of_int 100) 5 ''signal''
       = Inr (PyInt 0, init (dec_of_int 10000))"
proof -
  have h: "(5::int) > position (init (dec_of_int 10000))"
    by (simp add: init_def)
  show ?thesis
    using h sell_rejected_unchanged [OF h, of 1 "dec_of_int 100" "''signal''"] by simp
qed

end
